theory Spec2Isabelle
  imports Complex_Main
begin

section \<open>Data model: the Bus document (backend/src/models/Bus.js)\<close>

text \<open>
  Mongo ObjectIds, as the routes see them, and socket ids are strings; a Date is the number of milliseconds since
  the epoch. JavaScript Numbers that hold coordinates, speed and heading are only ever
  compared, so they are rationals here; passenger counts and capacities are the integers
  the validators let through. The one arithmetic expression of the model,
  \<open>(currentPassengers / capacity) * 100\<close>, is evaluated exactly.
\<close>

type_synonym object_id = string
type_synonym date = nat

datatype bus_status = active | inactive | maintenance | offline

datatype seat = Empty | Few_Seats | Full

record bus =
  bus_id :: object_id
  busNumber :: string
  driverId :: object_id
  coordinates :: "rat \<times> rat"
  destination :: string
  status :: bus_status
  seatAvailability :: seat
  capacity :: int
  currentPassengers :: int
  route :: "object_id option"
  lastUpdated :: date
  isActive :: bool
  speed :: rat
  heading :: rat
  bus_notes :: "string option"

text \<open>The schema's validators, run by \<open>save\<close> before the pre-save hook.\<close>

definition destinations :: "string list" where
  "destinations = [''Campus 25'', ''Campus 6'', ''Campus 15'', ''Main Campus'', ''Other'']"

definition coordinates_validator :: "rat \<times> rat \<Rightarrow> bool" where
  "coordinates_validator v =
     (fst v \<ge> -180 \<and> fst v \<le> 180 \<and> snd v \<ge> -90 \<and> snd v \<le> 90)"

definition notes_validator :: "string option \<Rightarrow> bool" where
  "notes_validator n = (case n of None \<Rightarrow> True | Some s \<Rightarrow> length s \<le> 500)"

definition validate :: "bus \<Rightarrow> bool" where
  "validate b =
     (busNumber b \<noteq> [] \<and>
      coordinates_validator (coordinates b) \<and>
      destination b \<in> set destinations \<and>
      capacity b \<ge> 1 \<and> capacity b \<le> 100 \<and>
      currentPassengers b \<ge> 0 \<and>
      speed b \<ge> 0 \<and>
      heading b \<ge> 0 \<and> heading b \<le> 360 \<and>
      notes_validator (bus_notes b))"

text \<open>
  The pre-save hook (Bus.js, lines 149-162). \<open>deriveTier\<close> is the body of its
  \<open>if\<close>: the percentage and the three-way test on it.
\<close>

definition percentage :: "int \<Rightarrow> int \<Rightarrow> rat" where
  "percentage passengers cap = (of_int passengers / of_int cap) * 100"

definition deriveTier :: "int \<Rightarrow> int \<Rightarrow> seat" where
  "deriveTier passengers cap =
     (if percentage passengers cap = 0 then Empty
      else if percentage passengers cap \<ge> 90 then Full
      else Few_Seats)"

text \<open>
  \<open>isModified('currentPassengers')\<close>: the document in hand differs from the one that
  was loaded in that path.
\<close>

definition isModified_currentPassengers :: "bus \<Rightarrow> bus \<Rightarrow> bool" where
  "isModified_currentPassengers loaded doc = (currentPassengers doc \<noteq> currentPassengers loaded)"

definition pre_save :: "bus \<Rightarrow> bus \<Rightarrow> bus" where
  "pre_save loaded doc =
     (if isModified_currentPassengers loaded doc
      then doc\<lparr>seatAvailability := deriveTier (currentPassengers doc) (capacity doc)\<rparr>
      else doc)"

text \<open>
  \<open>Bus.findById\<close> casts the id it is given to an ObjectId before it queries. A string
  of 24 hexadecimal digits is cast; for any other string the cast throws the CastError
  that each handler's \<open>catch\<close> turns into a 500. A cast id finds the stored document of
  that id or nothing (\<open>null\<close>).
\<close>

definition hex_digit :: "char \<Rightarrow> bool" where
  "hex_digit c = (c \<in> set ''0123456789abcdefABCDEF'')"

definition isObjectId :: "string \<Rightarrow> bool" where
  "isObjectId s = (length s = 24 \<and> list_all hex_digit s)"

datatype lookup = CastError | Missing | Doc bus

definition findById :: "bus list \<Rightarrow> object_id \<Rightarrow> lookup" where
  "findById coll i =
     (if isObjectId i
      then (case find (\<lambda>b. bus_id b = i) coll of None \<Rightarrow> Missing | Some b \<Rightarrow> Doc b)
      else CastError)"

text \<open>
  The collection is the list of its documents. \<open>save\<close> validates, runs the hook and
  replaces the stored document of the same id; a validation failure rejects (None) and
  stores nothing.
\<close>

definition store :: "bus \<Rightarrow> bus list \<Rightarrow> bus list" where
  "store doc coll = map (\<lambda>b. if bus_id b = bus_id doc then doc else b) coll"

definition save :: "bus \<Rightarrow> bus \<Rightarrow> bus list \<Rightarrow> (bus \<times> bus list) option" where
  "save loaded doc coll =
     (if validate doc
      then Some (pre_save loaded doc, store (pre_save loaded doc) coll)
      else None)"

text \<open>The two instance methods (Bus.js, lines 114-130): assignments, then \<open>save\<close>.\<close>

definition updateLocation ::
  "date \<Rightarrow> bus \<Rightarrow> rat \<Rightarrow> rat \<Rightarrow> rat \<Rightarrow> rat \<Rightarrow> bus list \<Rightarrow> (bus \<times> bus list) option" where
  "updateLocation now this lat lon spd hdg coll =
     save this
       (this\<lparr>coordinates := (lon, lat), speed := spd, heading := hdg, lastUpdated := now\<rparr>)
       coll"

text \<open>
  \<open>currentPassengers || this.currentPassengers\<close>: an omitted argument (None) and the
  number 0 are falsy, every other integer is truthy.
\<close>

definition or_else :: "int option \<Rightarrow> int \<Rightarrow> int" where
  "or_else v d = (case v of None \<Rightarrow> d | Some n \<Rightarrow> if n = 0 then d else n)"

definition updateStatus_assign :: "date \<Rightarrow> bus \<Rightarrow> bus_status \<Rightarrow> seat \<Rightarrow> int option \<Rightarrow> bus" where
  "updateStatus_assign now this st sa cp =
     this\<lparr>status := st, seatAvailability := sa,
          currentPassengers := or_else cp (currentPassengers this), lastUpdated := now\<rparr>"

definition updateStatus ::
  "date \<Rightarrow> bus \<Rightarrow> bus_status \<Rightarrow> seat \<Rightarrow> int option \<Rightarrow> bus list \<Rightarrow> (bus \<times> bus list) option" where
  "updateStatus now this st sa cp coll = save this (updateStatus_assign now this st sa cp) coll"

section \<open>The REST routes (backend/src/routes/buses.js)\<close>

text \<open>
  \<open>req.user\<close>, as the handlers read it: an id and a role of the User schema's enum.
\<close>

datatype user_role = student | driver | admin

record user =
  user_id :: object_id
  role :: user_role

text \<open>
  A field of a request body or query string, as a validator sees it: missing, present but
  not of the form the validator asks for (not a number, not in the enumeration), or a
  value of that form.
\<close>

datatype 'a field = Undefined | Malformed | Val 'a

definition isFloat_min_max :: "rat \<Rightarrow> rat \<Rightarrow> rat field \<Rightarrow> bool" where
  "isFloat_min_max lo hi f = (case f of Val x \<Rightarrow> lo \<le> x \<and> x \<le> hi | _ \<Rightarrow> False)"

definition isFloat_min :: "rat \<Rightarrow> rat field \<Rightarrow> bool" where
  "isFloat_min lo f = (case f of Val x \<Rightarrow> lo \<le> x | _ \<Rightarrow> False)"

definition isInt_min :: "int \<Rightarrow> int field \<Rightarrow> bool" where
  "isInt_min lo f = (case f of Val x \<Rightarrow> lo \<le> x | _ \<Rightarrow> False)"

definition isIn :: "'a field \<Rightarrow> bool" where
  "isIn f = (case f of Val x \<Rightarrow> True | _ \<Rightarrow> False)"

definition optional :: "('a field \<Rightarrow> bool) \<Rightarrow> 'a field \<Rightarrow> bool" where
  "optional chk f = (case f of Undefined \<Rightarrow> True | _ \<Rightarrow> chk f)"

text \<open>A destructured field with its default, \<open>const { speed = 0 } = req.body\<close>.\<close>

definition value_of :: "'a field \<Rightarrow> 'a \<Rightarrow> 'a" where
  "value_of f d = (case f of Val x \<Rightarrow> x | _ \<Rightarrow> d)"

text \<open>\<open>if (destination)\<close>: a string is truthy when it is present and not empty.\<close>

definition truthy :: "string option \<Rightarrow> bool" where
  "truthy s = (case s of None \<Rightarrow> False | Some t \<Rightarrow> t \<noteq> [])"

record location_body =
  latitude :: "rat field"
  longitude :: "rat field"
  body_speed :: "rat field"
  body_heading :: "rat field"

record status_body =
  body_status :: "bus_status field"
  body_seatAvailability :: "seat field"
  body_currentPassengers :: "int field"
  body_destination :: "string option"
  body_notes :: "string option"

text \<open>
  What a room is sent: the event name and its data. The data of the two REST events are
  built by the handlers; the data of a relayed socket event are the client's own, of
  which only \<open>busId\<close> is read.
\<close>

datatype payload =
    location_data object_id rat rat rat rat date
  | status_data object_id bus_status seat int string date
  | client_data object_id string

record emission =
  room :: string
  event :: string
  payload :: payload

definition room_of :: "object_id \<Rightarrow> string" where
  "room_of busId = ''bus-'' @ busId"

text \<open>The server: the Bus collection and socket.io's rooms (room name to socket ids).\<close>

record server =
  buses :: "bus list"
  rooms :: "string \<Rightarrow> string set"

text \<open>
  Replies by kind: 200 with the document, 200 with a list, 200 with a message only,
  400 (validation errors), 404, 403 and the 500 of each handler's \<open>catch\<close>.
\<close>

datatype reply =
    Success bus
  | Found "bus list"
  | Deactivated
  | ValidationError
  | NotFound
  | PermissionDenied
  | ServerError

text \<open>
  Modelled from the spec: the \<open>auth\<close> middleware (backend/src/middleware/auth.js is not
  among the sources). It stands first in each protected route's chain; the caller is
  \<open>Some u\<close> when it let the request through with \<open>req.user = u\<close>, and None for an
  unauthenticated caller, who is never permitted and gets PermissionDenied before the
  validators or the handler run.
\<close>

definition auth :: "user option \<Rightarrow> (user \<Rightarrow> reply \<times> server \<times> emission list)
    \<Rightarrow> server \<Rightarrow> reply \<times> server \<times> emission list" where
  "auth caller handler srv =
     (case caller of None \<Rightarrow> (PermissionDenied, srv, []) | Some u \<Rightarrow> handler u)"

text \<open>PUT /:id/location (lines 115-158).\<close>

definition location_validators :: "location_body \<Rightarrow> bool" where
  "location_validators body =
     (isFloat_min_max (-90) 90 (latitude body) \<and>
      isFloat_min_max (-180) 180 (longitude body) \<and>
      optional (isFloat_min 0) (body_speed body) \<and>
      optional (isFloat_min_max 0 360) (body_heading body))"

definition put_location ::
  "server \<Rightarrow> date \<Rightarrow> user option \<Rightarrow> object_id \<Rightarrow> location_body
     \<Rightarrow> reply \<times> server \<times> emission list" where
  "put_location srv now caller busId body =
     auth caller (\<lambda>u.
       if \<not> location_validators body then (ValidationError, srv, [])
       else
         let lat = value_of (latitude body) 0;
             lon = value_of (longitude body) 0;
             spd = value_of (body_speed body) 0;
             hdg = value_of (body_heading body) 0
         in case findById (buses srv) busId of
              CastError \<Rightarrow> (ServerError, srv, [])
            | Missing \<Rightarrow> (NotFound, srv, [])
            | Doc b \<Rightarrow>
                if role u = driver \<and> driverId b \<noteq> user_id u then (PermissionDenied, srv, [])
                else
                  (case updateLocation now b lat lon spd hdg (buses srv) of
                     None \<Rightarrow> (ServerError, srv, [])
                   | Some (b', coll') \<Rightarrow>
                       (Success b', srv\<lparr>buses := coll'\<rparr>,
                        [\<lparr>room = room_of busId, event = ''bus-location-updated'',
                          payload = location_data busId lat lon spd hdg now\<rparr>]))) srv"

text \<open>PUT /:id/status (lines 160-210).\<close>

definition status_validators :: "status_body \<Rightarrow> bool" where
  "status_validators body =
     (isIn (body_status body) \<and>
      isIn (body_seatAvailability body) \<and>
      optional (isInt_min 0) (body_currentPassengers body))"

definition assign_status :: "date \<Rightarrow> bus \<Rightarrow> status_body \<Rightarrow> bus" where
  "assign_status now b body =
     b\<lparr>status := value_of (body_status body) (status b),
       seatAvailability := value_of (body_seatAvailability body) (seatAvailability b),
       currentPassengers := value_of (body_currentPassengers body) (currentPassengers b),
       destination := (if truthy (body_destination body)
                       then the (body_destination body) else destination b),
       bus_notes := (if truthy (body_notes body) then body_notes body else bus_notes b),
       lastUpdated := now\<rparr>"

definition put_status ::
  "server \<Rightarrow> date \<Rightarrow> user option \<Rightarrow> object_id \<Rightarrow> status_body
     \<Rightarrow> reply \<times> server \<times> emission list" where
  "put_status srv now caller busId body =
     auth caller (\<lambda>u.
       if \<not> status_validators body then (ValidationError, srv, [])
       else
         case findById (buses srv) busId of
           CastError \<Rightarrow> (ServerError, srv, [])
         | Missing \<Rightarrow> (NotFound, srv, [])
         | Doc b \<Rightarrow>
             if role u = driver \<and> driverId b \<noteq> user_id u then (PermissionDenied, srv, [])
             else
               (case save b (assign_status now b body) (buses srv) of
                  None \<Rightarrow> (ServerError, srv, [])
                | Some (b', coll') \<Rightarrow>
                    (Success b', srv\<lparr>buses := coll'\<rparr>,
                     [\<lparr>room = room_of busId, event = ''bus-status-updated'',
                       payload = status_data busId
                         (value_of (body_status body) (status b))
                         (value_of (body_seatAvailability body) (seatAvailability b))
                         (currentPassengers b') (destination b') now\<rparr>]))) srv"

text \<open>DELETE /:id (lines 251-271): the soft delete, by admins only.\<close>

definition delete_bus ::
  "server \<Rightarrow> user option \<Rightarrow> object_id \<Rightarrow> reply \<times> server \<times> emission list" where
  "delete_bus srv caller busId =
     auth caller (\<lambda>u.
       case findById (buses srv) busId of
         CastError \<Rightarrow> (ServerError, srv, [])
       | Missing \<Rightarrow> (NotFound, srv, [])
       | Doc b \<Rightarrow>
           if role u \<noteq> admin then (PermissionDenied, srv, [])
           else
             (case save b (b\<lparr>isActive := False\<rparr>) (buses srv) of
                None \<Rightarrow> (ServerError, srv, [])
              | Some (b', coll') \<Rightarrow> (Deactivated, srv\<lparr>buses := coll'\<rparr>, []))) srv"

text \<open>GET /:id (lines 40-55): the snapshot of a bus, open to every caller.\<close>

definition get_bus :: "server \<Rightarrow> object_id \<Rightarrow> reply" where
  "get_bus srv busId =
     (case findById (buses srv) busId of
        CastError \<Rightarrow> ServerError | Missing \<Rightarrow> NotFound | Doc b \<Rightarrow> Success b)"


text \<open>
  GET /nearby/:latitude/:longitude (lines 212-228). The handler reads latitude, longitude
  and maxDistance from the query string; \<open>parseFloat\<close> and \<open>parseInt\<close> give NaN for a
  missing or malformed value. MongoDB rejects a point that is not within the
  longitude/latitude bounds (NaN is not) and a maximum distance that is not a non-negative
  number, and the handler's \<open>catch\<close> answers 500.
\<close>

record nearby_query =
  query_latitude :: "rat field"
  query_longitude :: "rat field"
  query_maxDistance :: "int field"


section \<open>The socket handlers (backend/src/server.js, lines 48-74)\<close>

text \<open>
  Each handler takes the socket's id and the event's argument and returns the server and
  what it emitted. \<open>join-bus-tracking\<close> adds the socket to the bus's room; the two
  update events are sent on, as they came, to the room of the \<open>busId\<close> they name.
\<close>

definition join_bus_tracking :: "server \<Rightarrow> string \<Rightarrow> object_id \<Rightarrow> server \<times> emission list" where
  "join_bus_tracking srv socket busId =
     (srv\<lparr>rooms := (rooms srv)(room_of busId := insert socket (rooms srv (room_of busId)))\<rparr>, [])"

definition update_bus_location ::
  "server \<Rightarrow> string \<Rightarrow> object_id \<Rightarrow> string \<Rightarrow> server \<times> emission list" where
  "update_bus_location srv socket busId rest =
     (srv, [\<lparr>room = room_of busId, event = ''bus-location-updated'',
              payload = client_data busId rest\<rparr>])"

definition update_bus_status ::
  "server \<Rightarrow> string \<Rightarrow> object_id \<Rightarrow> string \<Rightarrow> server \<times> emission list" where
  "update_bus_status srv socket busId rest =
     (srv, [\<lparr>room = room_of busId, event = ''bus-status-updated'',
              payload = client_data busId rest\<rparr>])"

text \<open>The sockets an emission reaches: the members of its room.\<close>

definition recipients :: "server \<Rightarrow> emission \<Rightarrow> string set" where
  "recipients srv e = rooms srv (room e)"

section \<open>Sequences of requests\<close>

datatype request =
    Put_location date "user option" object_id location_body
  | Put_status date "user option" object_id status_body
  | Delete_bus "user option" object_id
  | Join_bus_tracking string object_id
  | Update_bus_location string object_id string
  | Update_bus_status string object_id string

fun handle :: "server \<Rightarrow> request \<Rightarrow> server \<times> emission list" where
  "handle srv (Put_location now caller i body) = snd (put_location srv now caller i body)"
| "handle srv (Put_status now caller i body) = snd (put_status srv now caller i body)"
| "handle srv (Delete_bus caller i) = snd (delete_bus srv caller i)"
| "handle srv (Join_bus_tracking socket i) = join_bus_tracking srv socket i"
| "handle srv (Update_bus_location socket i rest) = update_bus_location srv socket i rest"
| "handle srv (Update_bus_status socket i rest) = update_bus_status srv socket i rest"

fun run :: "server \<Rightarrow> request list \<Rightarrow> server" where
  "run srv [] = srv"
| "run srv (r # rs) = run (fst (handle srv r)) rs"

text \<open>A reply that stands for a committed change of the collection.\<close>

definition committed :: "reply \<Rightarrow> bool" where
  "committed r = (case r of Success b \<Rightarrow> True | Deactivated \<Rightarrow> True | _ \<Rightarrow> False)"

text \<open>Every stored passenger count is non-negative.\<close>

definition passengers_nonneg :: "server \<Rightarrow> bool" where
  "passengers_nonneg srv = list_all (\<lambda>b. 0 \<le> currentPassengers b) (buses srv)"

section \<open>A concrete fleet\<close>

text \<open>
  Three buses and three users for the concrete cases: \<open>bus1\<close> is the spec's V1 with
  capacity 45, driven by \<open>driver1\<close>; \<open>bus3\<close> has been deactivated.
\<close>

definition bus1 :: bus where
  "bus1 = \<lparr>bus_id = ''0000000000000000000000b1'', busNumber = ''KIIT-01'', driverId = ''0000000000000000000000d1'',
           coordinates = (858189 / 10000, 202961 / 10000), destination = ''Main Campus'',
           status = active, seatAvailability = Empty, capacity = 45, currentPassengers = 0,
           route = None, lastUpdated = 1000, isActive = True, speed = 0, heading = 0,
           bus_notes = None\<rparr>"

definition bus2 :: bus where
  "bus2 = \<lparr>bus_id = ''0000000000000000000000b2'', busNumber = ''KIIT-02'', driverId = ''0000000000000000000000d2'',
           coordinates = (858189 / 10000, 202961 / 10000), destination = ''Campus 25'',
           status = active, seatAvailability = Empty, capacity = 50, currentPassengers = 0,
           route = None, lastUpdated = 1000, isActive = True, speed = 0, heading = 0,
           bus_notes = None\<rparr>"

definition bus3 :: bus where
  "bus3 = \<lparr>bus_id = ''0000000000000000000000b3'', busNumber = ''KIIT-03'', driverId = ''0000000000000000000000d1'',
           coordinates = (858189 / 10000, 202961 / 10000), destination = ''Campus 6'',
           status = active, seatAvailability = Empty, capacity = 50, currentPassengers = 0,
           route = None, lastUpdated = 1000, isActive = False, speed = 0, heading = 0,
           bus_notes = None\<rparr>"

definition fleet :: server where
  "fleet = \<lparr>buses = [bus1, bus2, bus3], rooms = (\<lambda>r. {})\<rparr>"

definition a_student :: user where
  "a_student = \<lparr>user_id = ''000000000000000000000051'', role = student\<rparr>"

definition driver1 :: user where
  "driver1 = \<lparr>user_id = ''0000000000000000000000d1'', role = driver\<rparr>"

definition an_admin :: user where
  "an_admin = \<lparr>user_id = ''0000000000000000000000a1'', role = admin\<rparr>"

text \<open>A location update to (20.355, 85.819), speed and heading left out.\<close>

definition move_body :: location_body where
  "move_body = \<lparr>latitude = Val (20355 / 1000), longitude = Val (85819 / 1000),
                 body_speed = Undefined, body_heading = Undefined\<rparr>"

definition moved :: "bus \<Rightarrow> bus" where
  "moved b = b\<lparr>coordinates := (85819 / 1000, 20355 / 1000), lastUpdated := 2000\<rparr>"

text \<open>The same update with a heading of exactly 360.\<close>

definition heading_360_body :: location_body where
  "heading_360_body = \<lparr>latitude = Val (20355 / 1000), longitude = Val (85819 / 1000),
                        body_speed = Val 12, body_heading = Val 360\<rparr>"

text \<open>Status updates: a tier with no passenger count, and passenger counts of 41 and 200.\<close>

definition full_body :: status_body where
  "full_body = \<lparr>body_status = Val active, body_seatAvailability = Val Full,
                 body_currentPassengers = Undefined, body_destination = None,
                 body_notes = None\<rparr>"

definition count_body :: "int \<Rightarrow> status_body" where
  "count_body n = \<lparr>body_status = Val active, body_seatAvailability = Val Few_Seats,
                    body_currentPassengers = Val n, body_destination = None,
                    body_notes = None\<rparr>"


definition here_query :: nearby_query where
  "here_query = \<lparr>query_latitude = Val (202961 / 10000), query_longitude = Val (858189 / 10000),
                  query_maxDistance = Undefined\<rparr>"

section \<open>State derivation\<close>

lemma percentage_zero_iff: "cap \<ge> 1 \<Longrightarrow> percentage p cap = 0 \<longleftrightarrow> p = 0"
  by (simp add: percentage_def)

lemma percentage_ge_90_iff:
  "cap \<ge> 1 \<Longrightarrow> percentage p cap \<ge> 90 \<longleftrightarrow> (of_int p / of_int cap :: rat) \<ge> 9 / 10"
  by (simp add: percentage_def field_simps)

text \<open>
  The comparison with 90 is never close: on integers the percentage is either at least
  90 or below it by \<open>10 / capacity\<close>, which is at least a tenth for every capacity
  the schema admits (at most 100).
\<close>

lemma percentage_margin:
  assumes "cap \<ge> 1" and "percentage p cap < 90"
  shows "percentage p cap \<le> 90 - 10 / of_int cap"
proof -
  have c: "(0::rat) < of_int cap" using assms(1) by simp
  from assms(2) c have "(of_int p :: rat) * 10 < 9 * of_int cap"
    by (simp add: percentage_def field_simps)
  then have "(of_int (p * 10) :: rat) < of_int (9 * cap)" by simp
  then have "p * 10 < 9 * cap" by (simp only: of_int_less_iff)
  then have "p * 10 + 1 \<le> 9 * cap" by linarith
  then have "(of_int (p * 10 + 1) :: rat) \<le> of_int (9 * cap)" by (simp only: of_int_le_iff)
  then have "(of_int p :: rat) * 10 + 1 \<le> 9 * of_int cap" by simp
  with c show ?thesis by (simp add: percentage_def field_simps)
qed

text \<open>
  C3. For integers with \<open>0 \<le> occupancy \<le> capacity\<close> and \<open>capacity \<ge> 1\<close> the
  derivation of the pre-save hook gives Empty exactly when the occupancy is 0, Full exactly
  when occupancy / capacity is at least 0.90, and Few Seats otherwise; 41 of 45 is Full and
  20 of 45 is Few Seats.
\<close>

theorem deriveTier_spec:
  assumes "0 \<le> occupancy" and "occupancy \<le> cap" and "cap \<ge> 1"
  shows "(deriveTier occupancy cap = Empty \<longleftrightarrow> occupancy = 0)
       \<and> (deriveTier occupancy cap = Full \<longleftrightarrow> (of_int occupancy / of_int cap :: rat) \<ge> 9 / 10)
       \<and> (deriveTier occupancy cap = Few_Seats \<longleftrightarrow>
            occupancy \<noteq> 0 \<and> (of_int occupancy / of_int cap :: rat) < 9 / 10)
       \<and> deriveTier 41 45 = Full \<and> deriveTier 20 45 = Few_Seats \<and> deriveTier 0 45 = Empty"
proof -
  have z: "percentage occupancy cap = 0 \<longleftrightarrow> occupancy = 0"
    using assms(3) by (rule percentage_zero_iff)
  have f: "percentage occupancy cap \<ge> 90 \<longleftrightarrow> (of_int occupancy / of_int cap :: rat) \<ge> 9 / 10"
    using assms(3) by (rule percentage_ge_90_iff)
  have e0: "occupancy = 0 \<Longrightarrow> \<not> (of_int occupancy / of_int cap :: rat) \<ge> 9 / 10" by simp
  have c1: "deriveTier 41 45 = Full" by (simp add: deriveTier_def percentage_def)
  have c2: "deriveTier 20 45 = Few_Seats" by (simp add: deriveTier_def percentage_def)
  have c3: "deriveTier 0 45 = Empty" by (simp add: deriveTier_def percentage_def)
  have t1: "deriveTier occupancy cap = Empty \<longleftrightarrow> occupancy = 0"
    using z by (simp add: deriveTier_def)
  have t2: "deriveTier occupancy cap = Full \<longleftrightarrow> (of_int occupancy / of_int cap :: rat) \<ge> 9 / 10"
    using z f e0 by (cases "occupancy = 0") (simp_all add: deriveTier_def)
  have t3: "deriveTier occupancy cap = Few_Seats \<longleftrightarrow>
            occupancy \<noteq> 0 \<and> (of_int occupancy / of_int cap :: rat) < 9 / 10"
    using z f by (cases "occupancy = 0") (simp_all add: deriveTier_def not_le)
  from t1 t2 t3 c1 c2 c3 show ?thesis by blast
qed

theorem deriveTier_spec_witness:
  "deriveTier 0 50 = Empty \<and> deriveTier 45 50 = Full \<and> deriveTier 44 50 = Few_Seats
   \<and> deriveTier 50 50 = Full \<and> deriveTier 1 1 = Full"
proof -
  have a: "deriveTier 0 50 = Empty" using deriveTier_spec [of 0 50] by simp
  have b: "deriveTier 45 50 = Full" using deriveTier_spec [of 45 50] by simp
  have c: "deriveTier 44 50 = Few_Seats" using deriveTier_spec [of 44 50] by simp
  have d: "deriveTier 50 50 = Full" using deriveTier_spec [of 50 50] by simp
  have e: "deriveTier 1 1 = Full" using deriveTier_spec [of 1 1] by simp
  from a b c d e show ?thesis by simp
qed

section \<open>Evaluation and the collection\<close>

lemmas schema_defs = validate_def coordinates_validator_def destinations_def notes_validator_def
  pre_save_def isModified_currentPassengers_def save_def store_def findById_def
  isObjectId_def hex_digit_def
lemmas route_defs = auth_def location_validators_def status_validators_def isFloat_min_max_def
  isFloat_min_def isInt_min_def isIn_def optional_def value_of_def truthy_def room_of_def
  updateLocation_def assign_status_def Let_def
lemmas fleet_defs = fleet_def bus1_def bus2_def bus3_def a_student_def driver1_def an_admin_def
  move_body_def moved_def heading_360_body_def full_body_def count_body_def here_query_def

lemma find_store:
  "find (\<lambda>b. bus_id b = i) (store doc coll) =
     (case find (\<lambda>b. bus_id b = i) coll of None \<Rightarrow> None
      | Some b \<Rightarrow> if i = bus_id doc then Some doc else Some b)"
  by (induction coll) (auto simp add: store_def)

lemma findById_store:
  "findById (store doc coll) i =
     (case findById coll i of CastError \<Rightarrow> CastError | Missing \<Rightarrow> Missing
      | Doc b \<Rightarrow> if i = bus_id doc then Doc doc else Doc b)"
  by (simp add: findById_def find_store split: option.splits)

lemma findById_Doc:
  "findById coll i = Doc b \<longleftrightarrow> isObjectId i \<and> find (\<lambda>b. bus_id b = i) coll = Some b"
  by (simp add: findById_def split: option.splits)

lemma findById_bus_id: "findById coll i = Doc b \<Longrightarrow> bus_id b = i"
  by (auto simp add: findById_Doc find_Some_iff)

lemma findById_store_same:
  assumes "findById coll i = Doc b" and "bus_id doc = i"
  shows "findById (store doc coll) i = Doc doc"
  using assms by (simp add: findById_store)

lemma bus_id_pre_save: "bus_id (pre_save loaded doc) = bus_id doc"
  by (simp add: pre_save_def)

lemma currentPassengers_pre_save:
  "currentPassengers (pre_save loaded doc) = currentPassengers doc"
  by (simp add: pre_save_def)

lemma capacity_pre_save: "capacity (pre_save loaded doc) = capacity doc"
  by (simp add: pre_save_def)

lemma save_Some:
  "save loaded doc coll = Some (b', coll') \<longleftrightarrow>
     validate doc \<and> b' = pre_save loaded doc \<and> coll' = store b' coll"
  by (auto simp add: save_def)

lemma validate_bus1: "validate bus1"
  by (simp add: validate_def bus1_def coordinates_validator_def destinations_def
      notes_validator_def)

section \<open>The model's methods\<close>

text \<open>
  C10. \<open>updateStatus\<close> called on a stored, valid document with a passenger count of 0
  keeps the count the document had: \<open>save\<close> succeeds and the collection then holds, under
  the document's id, a document with the old count, the new status, the tier passed in and
  the new \<open>lastUpdated\<close>. A positive count is stored as given, with the tier derived from
  it when it differs from the old count. No other document of the collection changes.
\<close>

theorem updateStatus_zero_keeps_count:
  assumes "validate this" and "findById coll (bus_id this) = Doc this"
  shows "currentPassengers (updateStatus_assign now this st sa (Some 0)) = currentPassengers this
       \<and> (\<exists>b' coll'. updateStatus now this st sa (Some 0) coll = Some (b', coll')
            \<and> coll' = store b' coll
            \<and> findById coll' (bus_id this) = Doc b'
            \<and> (\<forall>i. i \<noteq> bus_id this \<longrightarrow> findById coll' i = findById coll i)
            \<and> currentPassengers b' = currentPassengers this
            \<and> status b' = st \<and> seatAvailability b' = sa \<and> lastUpdated b' = now)
       \<and> (0 < p \<longrightarrow>
            currentPassengers (updateStatus_assign now this st sa (Some p)) = p
            \<and> (\<exists>b' coll'. updateStatus now this st sa (Some p) coll = Some (b', coll')
                 \<and> coll' = store b' coll
                 \<and> findById coll' (bus_id this) = Doc b'
                 \<and> (\<forall>i. i \<noteq> bus_id this \<longrightarrow> findById coll' i = findById coll i)
                 \<and> currentPassengers b' = p
                 \<and> status b' = st \<and> lastUpdated b' = now
                 \<and> seatAvailability b' =
                     (if p = currentPassengers this then sa else deriveTier p (capacity this))))"
proof -
  have stored: "updateStatus now this st sa cp coll = Some (b', store b' coll)
      \<and> findById (store b' coll) (bus_id this) = Doc b'
      \<and> (\<forall>i. i \<noteq> bus_id this \<longrightarrow> findById (store b' coll) i = findById coll i)"
    if v: "validate (updateStatus_assign now this st sa cp)"
      and b': "b' = pre_save this (updateStatus_assign now this st sa cp)" for cp b'
  proof -
    have id: "bus_id b' = bus_id this"
      using b' by (simp add: bus_id_pre_save updateStatus_assign_def)
    have s: "updateStatus now this st sa cp coll = Some (b', store b' coll)"
      using v b' by (simp add: updateStatus_def save_def)
    have f: "findById (store b' coll) (bus_id this) = Doc b'"
      using assms(2) id by (rule findById_store_same)
    have o: "findById (store b' coll) i = findById coll i" if "i \<noteq> bus_id this" for i
      using that id by (simp add: findById_store split: lookup.splits)
    from s f o show ?thesis by blast
  qed
  have v0: "validate (updateStatus_assign now this st sa (Some 0))"
    using assms(1) by (simp add: validate_def updateStatus_assign_def or_else_def)
  have vp: "0 < p \<Longrightarrow> validate (updateStatus_assign now this st sa (Some p))"
    using assms(1) by (simp add: validate_def updateStatus_assign_def or_else_def)
  have a0: "currentPassengers (updateStatus_assign now this st sa (Some 0)) = currentPassengers this"
    by (simp add: updateStatus_assign_def or_else_def)
  have ap: "0 < p \<Longrightarrow> currentPassengers (updateStatus_assign now this st sa (Some p)) = p"
    by (simp add: updateStatus_assign_def or_else_def)
  define b0 where "b0 = pre_save this (updateStatus_assign now this st sa (Some 0))"
  define bp where "bp = pre_save this (updateStatus_assign now this st sa (Some p))"
  have f0: "currentPassengers b0 = currentPassengers this \<and> status b0 = st
      \<and> seatAvailability b0 = sa \<and> lastUpdated b0 = now"
    by (simp add: b0_def pre_save_def isModified_currentPassengers_def updateStatus_assign_def
        or_else_def)
  have fp: "0 < p \<Longrightarrow> currentPassengers bp = p \<and> status bp = st \<and> lastUpdated bp = now
      \<and> seatAvailability bp =
           (if p = currentPassengers this then sa else deriveTier p (capacity this))"
    by (simp add: bp_def pre_save_def isModified_currentPassengers_def updateStatus_assign_def
        or_else_def)
  from stored [OF v0 b0_def] f0
  have s0: "\<exists>b' coll'. updateStatus now this st sa (Some 0) coll = Some (b', coll')
            \<and> coll' = store b' coll
            \<and> findById coll' (bus_id this) = Doc b'
            \<and> (\<forall>i. i \<noteq> bus_id this \<longrightarrow> findById coll' i = findById coll i)
            \<and> currentPassengers b' = currentPassengers this
            \<and> status b' = st \<and> seatAvailability b' = sa \<and> lastUpdated b' = now"
    by blast
  have sp: "\<exists>b' coll'. updateStatus now this st sa (Some p) coll = Some (b', coll')
                 \<and> coll' = store b' coll
                 \<and> findById coll' (bus_id this) = Doc b'
                 \<and> (\<forall>i. i \<noteq> bus_id this \<longrightarrow> findById coll' i = findById coll i)
                 \<and> currentPassengers b' = p
                 \<and> status b' = st \<and> lastUpdated b' = now
                 \<and> seatAvailability b' =
                     (if p = currentPassengers this then sa else deriveTier p (capacity this))"
    if pos: "0 < p"
    using stored [OF vp [OF pos] bp_def] fp [OF pos] by blast
  from a0 s0 ap sp show ?thesis by blast
qed

theorem updateStatus_zero_keeps_count_witness:
  "validate (bus1\<lparr>currentPassengers := 30\<rparr>)
   \<and> findById [bus1\<lparr>currentPassengers := 30\<rparr>, bus2] (bus_id (bus1\<lparr>currentPassengers := 30\<rparr>))
       = Doc (bus1\<lparr>currentPassengers := 30\<rparr>)
   \<and> (\<exists>b' coll'. updateStatus 2000 (bus1\<lparr>currentPassengers := 30\<rparr>) active Few_Seats (Some 0)
            [bus1\<lparr>currentPassengers := 30\<rparr>, bus2] = Some (b', coll')
        \<and> findById coll' ''0000000000000000000000b1'' = Doc b' \<and> currentPassengers b' = 30
        \<and> lastUpdated b' = 2000)
   \<and> (\<exists>b' coll'. updateStatus 2000 (bus1\<lparr>currentPassengers := 30\<rparr>) active Few_Seats (Some 7)
            [bus1\<lparr>currentPassengers := 30\<rparr>, bus2] = Some (b', coll')
        \<and> findById coll' ''0000000000000000000000b1'' = Doc b' \<and> currentPassengers b' = 7
        \<and> seatAvailability b' = deriveTier 7 45)"
proof -
  have v: "validate (bus1\<lparr>currentPassengers := 30\<rparr>)"
    using validate_bus1 by (simp add: validate_def)
  have f: "findById [bus1\<lparr>currentPassengers := 30\<rparr>, bus2] (bus_id (bus1\<lparr>currentPassengers := 30\<rparr>))
       = Doc (bus1\<lparr>currentPassengers := 30\<rparr>)"
    by (simp add: findById_def isObjectId_def hex_digit_def bus1_def)
  have i: "bus_id (bus1\<lparr>currentPassengers := 30\<rparr>) = ''0000000000000000000000b1''"
    and c: "capacity (bus1\<lparr>currentPassengers := 30\<rparr>) = 45"
    and n: "currentPassengers (bus1\<lparr>currentPassengers := 30\<rparr>) = 30"
    by (simp_all add: bus1_def)
  have p: "(0::int) < 7" by simp
  note t = updateStatus_zero_keeps_count [OF v f, of 2000 active Few_Seats 7]
  from t have z: "\<exists>b' coll'. updateStatus 2000 (bus1\<lparr>currentPassengers := 30\<rparr>) active Few_Seats (Some 0)
            [bus1\<lparr>currentPassengers := 30\<rparr>, bus2] = Some (b', coll')
        \<and> findById coll' ''0000000000000000000000b1'' = Doc b' \<and> currentPassengers b' = 30
        \<and> lastUpdated b' = 2000"
    unfolding i n by blast
  from t p have s: "\<exists>b' coll'. updateStatus 2000 (bus1\<lparr>currentPassengers := 30\<rparr>) active Few_Seats (Some 7)
            [bus1\<lparr>currentPassengers := 30\<rparr>, bus2] = Some (b', coll')
        \<and> findById coll' ''0000000000000000000000b1'' = Doc b' \<and> currentPassengers b' = 7
        \<and> seatAvailability b' = deriveTier 7 45"
    unfolding i n c by auto
  from v f z s show ?thesis by (intro conjI)
qed

section \<open>The subscription rooms\<close>

text \<open>
  C5, as the code has it. Joining the tracking of a bus adds the socket to the bus's room
  and to no other, leaves the collection as it is and sends nothing: the handler reads no
  bus and emits no event, so a joiner first hears of the bus at the next broadcast.
\<close>

theorem join_sends_nothing:
  "snd (join_bus_tracking srv socket busId) = []
   \<and> buses (fst (join_bus_tracking srv socket busId)) = buses srv
   \<and> rooms (fst (join_bus_tracking srv socket busId)) (room_of busId)
       = insert socket (rooms srv (room_of busId))
   \<and> (\<forall>r. r \<noteq> room_of busId \<longrightarrow>
         rooms (fst (join_bus_tracking srv socket busId)) r = rooms srv r)"
  by (simp add: join_bus_tracking_def)

theorem join_sends_nothing_witness:
  "snd (join_bus_tracking fleet ''k1'' ''0000000000000000000000b1'') = []
   \<and> rooms (fst (join_bus_tracking fleet ''k1'' ''0000000000000000000000b1'')) ''bus-0000000000000000000000b1'' = {''k1''}
   \<and> rooms (fst (join_bus_tracking fleet ''k1'' ''0000000000000000000000b1'')) ''bus-0000000000000000000000b2'' = {}"
proof -
  have r: "room_of ''0000000000000000000000b1'' = ''bus-0000000000000000000000b1''" by (simp add: room_of_def)
  have e: "rooms fleet = (\<lambda>r. {})" by (simp add: fleet_def)
  from join_sends_nothing [of fleet "''k1''" "''0000000000000000000000b1''"] r e show ?thesis by simp
qed

text \<open>
  The claim fails on the first join: the socket that joins the room of \<open>bus1\<close>, a bus of
  the collection, is sent no snapshot.
\<close>

theorem join_no_snapshot_counterexample:
  "findById (buses fleet) ''0000000000000000000000b1'' = Doc bus1
   \<and> \<not> (\<exists>e \<in> set (snd (join_bus_tracking fleet ''k1'' ''0000000000000000000000b1'')). ''k1'' \<in> recipients fleet e)
   \<and> snd (join_bus_tracking fleet ''k1'' ''0000000000000000000000b1'') = []"
  by (simp add: join_bus_tracking_def findById_def isObjectId_def hex_digit_def fleet_def bus1_def)

section \<open>Location mutations\<close>

lemma put_location_rejects:
  assumes "\<not> location_validators body"
  shows "put_location srv now caller busId body =
           (if caller = None then PermissionDenied else ValidationError, srv, [])"
  using assms by (cases caller) (simp_all add: put_location_def auth_def)

lemma validate_updateLocation:
  assumes "validate b" and "location_validators body"
  shows "validate (b\<lparr>coordinates := (value_of (longitude body) 0, value_of (latitude body) 0),
                     speed := value_of (body_speed body) 0,
                     heading := value_of (body_heading body) 0, lastUpdated := now\<rparr>)"
  using assms
  by (auto simp add: validate_def location_validators_def coordinates_validator_def
      isFloat_min_max_def isFloat_min_def optional_def value_of_def split: field.splits)

lemma put_location_accepts:
  assumes "location_validators body" and "findById (buses srv) busId = Doc b"
    and "validate b" and "\<not> (role u = driver \<and> driverId b \<noteq> user_id u)"
  shows "put_location srv now (Some u) busId body =
           (Success (b\<lparr>coordinates := (value_of (longitude body) 0, value_of (latitude body) 0),
                       speed := value_of (body_speed body) 0,
                       heading := value_of (body_heading body) 0, lastUpdated := now\<rparr>),
            srv\<lparr>buses := store
                   (b\<lparr>coordinates := (value_of (longitude body) 0, value_of (latitude body) 0),
                      speed := value_of (body_speed body) 0,
                      heading := value_of (body_heading body) 0, lastUpdated := now\<rparr>)
                   (buses srv)\<rparr>,
            [\<lparr>room = room_of busId, event = ''bus-location-updated'',
              payload = location_data busId (value_of (latitude body) 0)
                          (value_of (longitude body) 0) (value_of (body_speed body) 0)
                          (value_of (body_heading body) 0) now\<rparr>])"
proof -
  have v: "validate (b\<lparr>coordinates := (value_of (longitude body) 0, value_of (latitude body) 0),
                     speed := value_of (body_speed body) 0,
                     heading := value_of (body_heading body) 0, lastUpdated := now\<rparr>)"
    using assms(3) assms(1) by (rule validate_updateLocation)
  show ?thesis
    using assms(1,2,4) v
    by (simp add: put_location_def auth_def Let_def updateLocation_def save_def pre_save_def
        isModified_currentPassengers_def)
qed

text \<open>
  C1 fails on the code. The handlers turn away only a driver who is not the bus's own; a
  caller with the role student passes that test, and both mutations are committed,
  \<open>lastUpdated\<close> included, and broadcast.
\<close>

theorem student_mutation_committed:
  "put_location fleet 2000 (Some a_student) ''0000000000000000000000b1'' move_body =
     (Success (moved bus1), fleet\<lparr>buses := [moved bus1, bus2, bus3]\<rparr>,
      [\<lparr>room = ''bus-0000000000000000000000b1'', event = ''bus-location-updated'',
        payload = location_data ''0000000000000000000000b1'' (20355 / 1000) (85819 / 1000) 0 0 2000\<rparr>])
   \<and> lastUpdated (moved bus1) \<noteq> lastUpdated bus1
   \<and> put_status fleet 2000 (Some a_student) ''0000000000000000000000b1'' full_body =
     (Success (bus1\<lparr>seatAvailability := Full, lastUpdated := 2000\<rparr>),
      fleet\<lparr>buses := [bus1\<lparr>seatAvailability := Full, lastUpdated := 2000\<rparr>, bus2, bus3]\<rparr>,
      [\<lparr>room = ''bus-0000000000000000000000b1'', event = ''bus-status-updated'',
        payload = status_data ''0000000000000000000000b1'' active Full 0 ''Main Campus'' 2000\<rparr>])"
  by (simp add: put_location_def put_status_def schema_defs route_defs fleet_defs)




text \<open>
  C9, as the code has it. With latitude and longitude given as numbers and speed and
  heading given as numbers or left out (then 0), a location mutation of an authenticated
  caller is answered ValidationError, with nothing changed and nothing emitted, whenever
  the latitude is outside [-90, 90], the longitude outside [-180, 180], the speed negative
  or the heading outside the closed interval [0, 360]; whatever the caller, a mutation that
  is accepted has all four in these ranges and stores them. The upper bound of the heading
  is inclusive.
\<close>

theorem put_location_ranges:
  assumes "latitude body = Val lat" and "longitude body = Val lon"
    and "body_speed body \<noteq> Malformed" and "body_heading body \<noteq> Malformed"
    and "spd = value_of (body_speed body) 0" and "hdg = value_of (body_heading body) 0"
  shows "(\<not> (-90 \<le> lat \<and> lat \<le> 90 \<and> -180 \<le> lon \<and> lon \<le> 180 \<and> 0 \<le> spd
             \<and> 0 \<le> hdg \<and> hdg \<le> 360) \<longrightarrow>
            put_location srv now (Some u) busId body = (ValidationError, srv, [])
            \<and> snd (put_location srv now caller busId body) = (srv, []))
       \<and> (\<forall>b' srv' ems. put_location srv now caller busId body = (Success b', srv', ems) \<longrightarrow>
            -90 \<le> lat \<and> lat \<le> 90 \<and> -180 \<le> lon \<and> lon \<le> 180 \<and> 0 \<le> spd
            \<and> 0 \<le> hdg \<and> hdg \<le> 360
            \<and> coordinates b' = (lon, lat) \<and> speed b' = spd \<and> heading b' = hdg)"
proof -
  have iff: "location_validators body \<longleftrightarrow>
      (-90 \<le> lat \<and> lat \<le> 90 \<and> -180 \<le> lon \<and> lon \<le> 180 \<and> 0 \<le> spd \<and> 0 \<le> hdg \<and> hdg \<le> 360)"
    using assms
    by (cases "body_speed body"; cases "body_heading body")
       (simp_all add: location_validators_def isFloat_min_max_def isFloat_min_def optional_def
          value_of_def)
  have rej: "\<not> location_validators body \<Longrightarrow>
      put_location srv now (Some u) busId body = (ValidationError, srv, [])
      \<and> snd (put_location srv now caller busId body) = (srv, [])"
    by (simp add: put_location_rejects)
  have acc: "put_location srv now caller busId body = (Success b', srv', ems) \<Longrightarrow>
      location_validators body \<and> coordinates b' = (lon, lat) \<and> speed b' = spd \<and> heading b' = hdg"
    for b' srv' ems
    using assms(1,2,5,6)
    by (cases caller)
       (auto simp add: put_location_def auth_def Let_def updateLocation_def save_def pre_save_def
          isModified_currentPassengers_def value_of_def
          split: if_splits option.splits lookup.splits)
  from iff rej acc show ?thesis by blast
qed

theorem put_location_ranges_witness:
  "put_location fleet 2000 (Some driver1) ''0000000000000000000000b1''
      \<lparr>latitude = Val 91, longitude = Val 85, body_speed = Val 12, body_heading = Undefined\<rparr>
     = (ValidationError, fleet, [])
   \<and> put_location fleet 2000 (Some driver1) ''0000000000000000000000b1''
      \<lparr>latitude = Val 20, longitude = Val 85, body_speed = Val 12, body_heading = Val 361\<rparr>
     = (ValidationError, fleet, [])
   \<and> (\<exists>b' srv' ems. put_location fleet 2000 (Some driver1) ''0000000000000000000000b1'' move_body = (Success b', srv', ems)
        \<and> coordinates b' = (85819 / 1000, 20355 / 1000) \<and> speed b' = 0 \<and> heading b' = 0)"
proof -
  have a: "put_location fleet 2000 (Some driver1) ''0000000000000000000000b1''
      \<lparr>latitude = Val 91, longitude = Val 85, body_speed = Val 12, body_heading = Undefined\<rparr>
     = (ValidationError, fleet, [])"
    using put_location_ranges [of
        "\<lparr>latitude = Val 91, longitude = Val 85, body_speed = Val 12, body_heading = Undefined\<rparr>"
        91 85 12 0 fleet 2000 driver1 "''0000000000000000000000b1''" "Some driver1"]
    by (simp add: value_of_def)
  have b: "put_location fleet 2000 (Some driver1) ''0000000000000000000000b1''
      \<lparr>latitude = Val 20, longitude = Val 85, body_speed = Val 12, body_heading = Val 361\<rparr>
     = (ValidationError, fleet, [])"
    using put_location_ranges [of
        "\<lparr>latitude = Val 20, longitude = Val 85, body_speed = Val 12, body_heading = Val 361\<rparr>"
        20 85 12 361 fleet 2000 driver1 "''0000000000000000000000b1''" "Some driver1"]
    by (simp add: value_of_def)
  have e: "put_location fleet 2000 (Some driver1) ''0000000000000000000000b1'' move_body =
       (Success (moved bus1), fleet\<lparr>buses := [moved bus1, bus2, bus3]\<rparr>,
        [\<lparr>room = ''bus-0000000000000000000000b1'', event = ''bus-location-updated'',
          payload = location_data ''0000000000000000000000b1'' (20355 / 1000) (85819 / 1000) 0 0 2000\<rparr>])"
    by (simp add: put_location_def schema_defs route_defs fleet_defs)
  have c: "coordinates (moved bus1) = (85819 / 1000, 20355 / 1000) \<and> speed (moved bus1) = 0
           \<and> heading (moved bus1) = 0"
    using put_location_ranges [of move_body "20355 / 1000" "85819 / 1000" 0 0 fleet 2000
        driver1 "''0000000000000000000000b1''" "Some driver1"] e
    by (simp add: move_body_def value_of_def)
  from a b c e show ?thesis by simp
qed

text \<open>
  The claim fails at its own example: a heading of exactly 360 passes the route's
  validator and the schema's, and the mutation is committed with that heading.
\<close>

theorem heading_360_accepted_counterexample:
  "body_heading heading_360_body = Val 360
   \<and> (\<exists>b' srv' ems.
        put_location fleet 2000 (Some driver1) ''0000000000000000000000b1'' heading_360_body = (Success b', srv', ems)
        \<and> heading b' = 360 \<and> findById (buses srv') ''0000000000000000000000b1'' = Doc b')"
  by (simp add: put_location_def schema_defs route_defs fleet_defs)

section \<open>Status mutations and the seat tier\<close>

lemma put_status_Success:
  assumes "put_status srv now caller busId body = (Success b', srv', ems)"
    and "findById (buses srv) busId = Doc b"
  shows "status_validators body \<and> validate (assign_status now b body)
       \<and> b' = pre_save b (assign_status now b body)
       \<and> srv' = srv\<lparr>buses := store b' (buses srv)\<rparr>"
  using assms
  by (cases caller)
     (auto simp add: put_status_def auth_def save_def split: if_splits)

lemma put_location_Success:
  assumes "put_location srv now caller busId body = (Success b', srv', ems)"
    and "findById (buses srv) busId = Doc b"
  shows "b' = b\<lparr>coordinates := (value_of (longitude body) 0, value_of (latitude body) 0),
                speed := value_of (body_speed body) 0,
                heading := value_of (body_heading body) 0, lastUpdated := now\<rparr>
       \<and> srv' = srv\<lparr>buses := store b' (buses srv)\<rparr>"
  using assms
  by (cases caller)
     (auto simp add: put_location_def auth_def Let_def updateLocation_def save_def pre_save_def
        isModified_currentPassengers_def split: if_splits)

text \<open>
  C2, as the code has it. A committed status mutation that changes the stored passenger
  count leaves a snapshot whose tier is the one derived from its count and capacity; one
  that supplies no count, or the count already stored, leaves the tier the caller sent. A
  committed location mutation changes neither count nor tier. The capacity never changes.
\<close>

theorem status_mutation_tier:
  assumes "findById (buses srv) busId = Doc b"
  shows "(\<forall>b' srv' ems. put_status srv now caller busId body = (Success b', srv', ems) \<longrightarrow>
            get_bus srv' busId = Success b'
            \<and> capacity b' = capacity b
            \<and> (currentPassengers b' \<noteq> currentPassengers b \<longrightarrow>
                 body_currentPassengers body = Val (currentPassengers b')
                 \<and> seatAvailability b' = deriveTier (currentPassengers b') (capacity b'))
            \<and> (currentPassengers b' = currentPassengers b \<longrightarrow>
                 body_seatAvailability body = Val (seatAvailability b')))
       \<and> (\<forall>b' srv' ems. put_location srv now caller busId lbody = (Success b', srv', ems) \<longrightarrow>
            get_bus srv' busId = Success b'
            \<and> capacity b' = capacity b
            \<and> currentPassengers b' = currentPassengers b
            \<and> seatAvailability b' = seatAvailability b)"
proof -
  have i: "bus_id b = busId" using assms by (rule findById_bus_id)
  have st: "get_bus srv' busId = Success b'
            \<and> capacity b' = capacity b
            \<and> (currentPassengers b' \<noteq> currentPassengers b \<longrightarrow>
                 body_currentPassengers body = Val (currentPassengers b')
                 \<and> seatAvailability b' = deriveTier (currentPassengers b') (capacity b'))
            \<and> (currentPassengers b' = currentPassengers b \<longrightarrow>
                 body_seatAvailability body = Val (seatAvailability b'))"
    if h: "put_status srv now caller busId body = (Success b', srv', ems)" for b' srv' ems
  proof -
    from put_status_Success [OF h assms]
    have v: "status_validators body" and b': "b' = pre_save b (assign_status now b body)"
      and s: "srv' = srv\<lparr>buses := store b' (buses srv)\<rparr>" by simp_all
    have id: "bus_id b' = busId" using b' i by (simp add: bus_id_pre_save assign_status_def)
    have g: "get_bus srv' busId = Success b'"
      using s findById_store_same [OF assms id] by (simp add: get_bus_def)
    have c: "capacity b' = capacity b" using b' by (simp add: capacity_pre_save assign_status_def)
    have p: "currentPassengers b' = value_of (body_currentPassengers body) (currentPassengers b)"
      using b' by (simp add: currentPassengers_pre_save assign_status_def)
    define doc where "doc = assign_status now b body"
    have pd: "currentPassengers doc = currentPassengers b'" and cd: "capacity doc = capacity b'"
      using b' by (simp_all add: doc_def currentPassengers_pre_save capacity_pre_save)
    have sd: "body_seatAvailability body = Val (seatAvailability doc)"
      using v
      by (cases "body_seatAvailability body")
         (simp_all add: doc_def status_validators_def isIn_def value_of_def assign_status_def)
    have ch: "body_currentPassengers body = Val (currentPassengers b')
                 \<and> seatAvailability b' = deriveTier (currentPassengers b') (capacity b')"
      if n: "currentPassengers b' \<noteq> currentPassengers b"
    proof -
      from n pd have "isModified_currentPassengers b doc"
        by (simp add: isModified_currentPassengers_def)
      with b' have "b' = doc\<lparr>seatAvailability := deriveTier (currentPassengers doc) (capacity doc)\<rparr>"
        by (simp add: pre_save_def doc_def)
      then have t: "seatAvailability b' = deriveTier (currentPassengers doc) (capacity doc)"
        by simp
      from n p have "body_currentPassengers body = Val (currentPassengers b')"
        by (cases "body_currentPassengers body") (simp_all add: value_of_def)
      with t pd cd show ?thesis by simp
    qed
    have un: "body_seatAvailability body = Val (seatAvailability b')"
      if e: "currentPassengers b' = currentPassengers b"
    proof -
      from e pd have "\<not> isModified_currentPassengers b doc"
        by (simp add: isModified_currentPassengers_def)
      with b' have "b' = doc" by (simp add: pre_save_def doc_def)
      with sd show ?thesis by simp
    qed
    from g c ch un show ?thesis by blast
  qed
  have lo: "get_bus srv' busId = Success b'
            \<and> capacity b' = capacity b
            \<and> currentPassengers b' = currentPassengers b
            \<and> seatAvailability b' = seatAvailability b"
    if h: "put_location srv now caller busId lbody = (Success b', srv', ems)" for b' srv' ems
  proof -
    from put_location_Success [OF h assms]
    have b': "b' = b\<lparr>coordinates := (value_of (longitude lbody) 0, value_of (latitude lbody) 0),
                speed := value_of (body_speed lbody) 0,
                heading := value_of (body_heading lbody) 0, lastUpdated := now\<rparr>"
      and s: "srv' = srv\<lparr>buses := store b' (buses srv)\<rparr>" by simp_all
    have id: "bus_id b' = busId" using b' i by simp
    have g: "get_bus srv' busId = Success b'"
      using s findById_store_same [OF assms id] by (simp add: get_bus_def)
    from g b' show ?thesis by simp
  qed
  from st lo show ?thesis by blast
qed

theorem status_mutation_tier_witness:
  "findById (buses fleet) ''0000000000000000000000b1'' = Doc bus1
   \<and> (\<exists>b' srv' ems. put_status fleet 2000 (Some driver1) ''0000000000000000000000b1'' (count_body 41) = (Success b', srv', ems)
        \<and> get_bus srv' ''0000000000000000000000b1'' = Success b'
        \<and> currentPassengers b' = 41 \<and> capacity b' = 45 \<and> seatAvailability b' = Full)
   \<and> (\<exists>b' srv' ems. put_location fleet 2000 (Some driver1) ''0000000000000000000000b1'' move_body = (Success b', srv', ems)
        \<and> get_bus srv' ''0000000000000000000000b1'' = Success b'
        \<and> currentPassengers b' = 0 \<and> seatAvailability b' = Empty)"
proof -
  have f: "findById (buses fleet) ''0000000000000000000000b1'' = Doc bus1"
    by (simp add: findById_def isObjectId_def hex_digit_def fleet_def bus1_def)
  have e: "put_status fleet 2000 (Some driver1) ''0000000000000000000000b1'' (count_body 41) =
       (Success (bus1\<lparr>seatAvailability := Full, currentPassengers := 41, lastUpdated := 2000\<rparr>),
        fleet\<lparr>buses := [bus1\<lparr>seatAvailability := Full, currentPassengers := 41,
                                lastUpdated := 2000\<rparr>, bus2, bus3]\<rparr>,
        [\<lparr>room = ''bus-0000000000000000000000b1'', event = ''bus-status-updated'',
          payload = status_data ''0000000000000000000000b1'' active Few_Seats 41 ''Main Campus'' 2000\<rparr>])"
    by (simp add: put_status_def schema_defs route_defs fleet_defs deriveTier_def percentage_def)
  have l: "put_location fleet 2000 (Some driver1) ''0000000000000000000000b1'' move_body =
       (Success (moved bus1), fleet\<lparr>buses := [moved bus1, bus2, bus3]\<rparr>,
        [\<lparr>room = ''bus-0000000000000000000000b1'', event = ''bus-location-updated'',
          payload = location_data ''0000000000000000000000b1'' (20355 / 1000) (85819 / 1000) 0 0 2000\<rparr>])"
    by (simp add: put_location_def schema_defs route_defs fleet_defs)
  have d: "deriveTier 41 45 = Full" by (simp add: deriveTier_def percentage_def)
  have c: "capacity bus1 = 45 \<and> currentPassengers bus1 = 0 \<and> seatAvailability bus1 = Empty"
    by (simp add: bus1_def)
  have m: "currentPassengers (moved bus1) = 0 \<and> seatAvailability (moved bus1) = Empty"
    by (simp add: bus1_def moved_def)
  from status_mutation_tier [OF f, of 2000 "Some driver1" "count_body 41" move_body] e l d c m f
  show ?thesis by simp
qed

text \<open>
  The claim fails after one status mutation that sends a tier and no passenger count: the
  hook does not run, and the snapshot pairs the tier Full with 0 of 45 passengers, for
  which the derivation gives Empty.
\<close>

theorem stale_tier_counterexample:
  "\<exists>b' srv' ems.
      put_status fleet 2000 (Some driver1) ''0000000000000000000000b1'' full_body = (Success b', srv', ems)
      \<and> get_bus srv' ''0000000000000000000000b1'' = Success b'
      \<and> seatAvailability b' = Full \<and> currentPassengers b' = 0 \<and> capacity b' = 45
      \<and> deriveTier (currentPassengers b') (capacity b') = Empty"
  by (simp add: put_status_def get_bus_def schema_defs route_defs fleet_defs deriveTier_def
      percentage_def)

section \<open>Passenger counts over sequences of requests\<close>

lemma list_all_store:
  assumes "list_all P coll" and "P doc"
  shows "list_all P (store doc coll)"
  using assms by (induction coll) (simp_all add: store_def)

lemma save_passengers_nonneg:
  assumes "save loaded doc coll = Some (b', coll')"
    and "list_all (\<lambda>b. 0 \<le> currentPassengers b) coll"
  shows "list_all (\<lambda>b. 0 \<le> currentPassengers b) coll'"
proof -
  from assms(1) have v: "validate doc" and b': "b' = pre_save loaded doc"
    and c: "coll' = store b' coll" by (simp_all add: save_Some)
  from v b' have "0 \<le> currentPassengers b'"
    by (simp add: validate_def currentPassengers_pre_save)
  with assms(2) c show ?thesis by (simp add: list_all_store)
qed

lemma put_location_passengers_nonneg:
  assumes "passengers_nonneg srv"
  shows "passengers_nonneg (fst (snd (put_location srv now caller busId body)))"
  using assms
  by (cases caller)
     (auto simp add: put_location_def auth_def Let_def updateLocation_def passengers_nonneg_def
        split: option.splits lookup.splits dest: save_passengers_nonneg)

lemma put_status_passengers_nonneg:
  assumes "passengers_nonneg srv"
  shows "passengers_nonneg (fst (snd (put_status srv now caller busId body)))"
  using assms
  by (cases caller)
     (auto simp add: put_status_def auth_def passengers_nonneg_def
        split: option.splits lookup.splits dest: save_passengers_nonneg)

lemma delete_bus_passengers_nonneg:
  assumes "passengers_nonneg srv"
  shows "passengers_nonneg (fst (snd (delete_bus srv caller busId)))"
  using assms
  by (cases caller)
     (auto simp add: delete_bus_def auth_def passengers_nonneg_def
        split: option.splits lookup.splits dest: save_passengers_nonneg)

lemma handle_passengers_nonneg:
  assumes "passengers_nonneg srv"
  shows "passengers_nonneg (fst (handle srv r))"
proof (cases r)
  case (Put_location now caller i body)
  then show ?thesis using assms by (simp add: put_location_passengers_nonneg)
next
  case (Put_status now caller i body)
  then show ?thesis using assms by (simp add: put_status_passengers_nonneg)
next
  case (Delete_bus caller i)
  then show ?thesis using assms by (simp add: delete_bus_passengers_nonneg)
next
  case (Join_bus_tracking socket i)
  then show ?thesis using assms by (simp add: join_bus_tracking_def passengers_nonneg_def)
next
  case (Update_bus_location socket i rest)
  then show ?thesis using assms by (simp add: update_bus_location_def)
next
  case (Update_bus_status socket i rest)
  then show ?thesis using assms by (simp add: update_bus_status_def)
qed

lemma findById_in_set: "findById coll i = Doc b \<Longrightarrow> b \<in> set coll"
  by (auto simp add: findById_Doc find_Some_iff)

text \<open>
  C7, as the code has it. If every stored passenger count is non-negative, it stays so
  through every sequence of requests, and every snapshot read afterwards shows a
  non-negative count. No upper bound by the capacity is kept: none is checked.
\<close>

theorem passengers_never_negative:
  assumes "passengers_nonneg srv"
  shows "passengers_nonneg (run srv reqs)
       \<and> (\<forall>i b. get_bus (run srv reqs) i = Success b \<longrightarrow> 0 \<le> currentPassengers b)"
proof -
  have inv: "passengers_nonneg (run srv reqs)"
    using assms
  proof (induction reqs arbitrary: srv)
    case Nil
    then show ?case by simp
  next
    case (Cons r rs)
    from Cons.prems have "passengers_nonneg (fst (handle srv r))"
      by (rule handle_passengers_nonneg)
    then show ?case using Cons.IH by simp
  qed
  have "0 \<le> currentPassengers b" if g: "get_bus (run srv reqs) i = Success b" for i b
  proof -
    from g have "findById (buses (run srv reqs)) i = Doc b"
      by (simp add: get_bus_def split: lookup.splits)
    then have "b \<in> set (buses (run srv reqs))" by (rule findById_in_set)
    with inv show ?thesis by (simp add: passengers_nonneg_def list_all_iff)
  qed
  with inv show ?thesis by blast
qed

theorem passengers_never_negative_witness:
  "passengers_nonneg fleet
   \<and> passengers_nonneg
       (run fleet [Put_status 2000 (Some driver1) ''0000000000000000000000b1'' (count_body 41),
                   Put_location 3000 (Some driver1) ''0000000000000000000000b1'' move_body,
                   Put_status 4000 (Some driver1) ''0000000000000000000000b1'' (count_body (-1)),
                   Delete_bus (Some an_admin) ''0000000000000000000000b2''])"
proof -
  have f: "passengers_nonneg fleet"
    by (simp add: passengers_nonneg_def fleet_def bus1_def bus2_def bus3_def)
  from passengers_never_negative [OF f] f show ?thesis by blast
qed

text \<open>
  The claim fails at a passenger count above the capacity: 200 passengers on the 45 seats
  of \<open>bus1\<close> pass the validator and the schema, and the snapshot shows them.
\<close>

theorem occupancy_above_capacity_counterexample:
  "\<exists>b' srv' ems.
      put_status fleet 2000 (Some driver1) ''0000000000000000000000b1'' (count_body 200) = (Success b', srv', ems)
      \<and> get_bus srv' ''0000000000000000000000b1'' = Success b'
      \<and> currentPassengers b' = 200 \<and> capacity b' = 45
      \<and> \<not> currentPassengers b' \<le> capacity b'"
  by (simp add: put_status_def get_bus_def schema_defs route_defs fleet_defs deriveTier_def
      percentage_def)

section \<open>Broadcasts\<close>

lemma put_location_cases:
  "(\<exists>b b'. findById (buses srv) busId = Doc b
       \<and> put_location srv now caller busId body =
           (Success b', srv\<lparr>buses := store b' (buses srv)\<rparr>,
            [\<lparr>room = room_of busId, event = ''bus-location-updated'',
              payload = location_data busId (value_of (latitude body) 0)
                          (value_of (longitude body) 0) (value_of (body_speed body) 0)
                          (value_of (body_heading body) 0) now\<rparr>]))
   \<or> (\<exists>r. \<not> committed r \<and> put_location srv now caller busId body = (r, srv, []))"
proof (cases caller)
  case None
  then show ?thesis by (simp add: put_location_def auth_def committed_def)
next
  case (Some u)
  show ?thesis
  proof (cases "location_validators body")
    case False
    with Some show ?thesis by (simp add: put_location_def auth_def committed_def)
  next
    case True
    show ?thesis
    proof (cases "findById (buses srv) busId")
      case CastError
      with Some True show ?thesis by (simp add: put_location_def auth_def committed_def Let_def)
    next
      case Missing
      with Some True show ?thesis by (simp add: put_location_def auth_def committed_def Let_def)
    next
      case (Doc b)
      show ?thesis
      proof (cases "role u = driver \<and> driverId b \<noteq> user_id u")
        case True
        with \<open>caller = Some u\<close> \<open>location_validators body\<close> Doc show ?thesis
          by (simp add: put_location_def auth_def committed_def Let_def)
      next
        case False
        show ?thesis
        proof (cases "updateLocation now b (value_of (latitude body) 0)
            (value_of (longitude body) 0) (value_of (body_speed body) 0)
            (value_of (body_heading body) 0) (buses srv)")
          case None
          with False \<open>caller = Some u\<close> \<open>location_validators body\<close> Doc show ?thesis
            by (simp add: put_location_def auth_def committed_def Let_def)
        next
          case (Some res)
          obtain b' coll' where r: "res = (b', coll')" by (cases res)
          from Some r have "coll' = store b' (buses srv)"
            by (simp add: updateLocation_def save_Some)
          with Some r False \<open>caller = Some u\<close> \<open>location_validators body\<close>
            \<open>findById (buses srv) busId = Doc b\<close>
          show ?thesis
            by (simp add: put_location_def auth_def Let_def committed_def)
        qed
      qed
    qed
  qed
qed

lemma put_status_cases:
  "(\<exists>b b' p. findById (buses srv) busId = Doc b
       \<and> put_status srv now caller busId body =
           (Success b', srv\<lparr>buses := store b' (buses srv)\<rparr>,
            [\<lparr>room = room_of busId, event = ''bus-status-updated'', payload = p\<rparr>]))
   \<or> (\<exists>r. \<not> committed r \<and> put_status srv now caller busId body = (r, srv, []))"
proof (cases caller)
  case None
  then show ?thesis by (simp add: put_status_def auth_def committed_def)
next
  case (Some u)
  show ?thesis
  proof (cases "status_validators body")
    case False
    with Some show ?thesis by (simp add: put_status_def auth_def committed_def)
  next
    case True
    show ?thesis
    proof (cases "findById (buses srv) busId")
      case CastError
      with Some True show ?thesis by (simp add: put_status_def auth_def committed_def)
    next
      case Missing
      with Some True show ?thesis by (simp add: put_status_def auth_def committed_def)
    next
      case (Doc b)
      show ?thesis
      proof (cases "role u = driver \<and> driverId b \<noteq> user_id u")
        case True
        with \<open>caller = Some u\<close> \<open>status_validators body\<close> Doc show ?thesis
          by (simp add: put_status_def auth_def committed_def)
      next
        case False
        show ?thesis
        proof (cases "save b (assign_status now b body) (buses srv)")
          case None
          with False \<open>caller = Some u\<close> \<open>status_validators body\<close> Doc show ?thesis
            by (simp add: put_status_def auth_def committed_def)
        next
          case (Some res)
          obtain b' coll' where r: "res = (b', coll')" by (cases res)
          from Some r have "coll' = store b' (buses srv)"
            by (simp add: save_Some)
          with Some r False \<open>caller = Some u\<close> \<open>status_validators body\<close>
            \<open>findById (buses srv) busId = Doc b\<close>
          show ?thesis
            by (simp add: put_status_def auth_def committed_def)
        qed
      qed
    qed
  qed
qed

text \<open>
  C4, as the code has it. A location or status mutation through the REST routes that is
  committed emits exactly one event, to the room of its bus, and stores the document it
  replies with; one that is not committed emits nothing and changes nothing. The soft
  delete emits nothing, committed or not. The socket events \<open>update-bus-location\<close> and
  \<open>update-bus-status\<close> are emitted to the room of the bus they name, once each, and
  change nothing: these broadcasts have no committed change behind them.
\<close>

theorem rest_mutation_emits_once:
  "(put_location srv now caller busId lbody = (r, srv', ems) \<longrightarrow>
       (committed r \<longrightarrow>
          (\<exists>e. ems = [e] \<and> room e = room_of busId \<and> event e = ''bus-location-updated'')
          \<and> (\<exists>b b'. findById (buses srv) busId = Doc b \<and> r = Success b'
                \<and> srv' = srv\<lparr>buses := store b' (buses srv)\<rparr>))
       \<and> (\<not> committed r \<longrightarrow> ems = [] \<and> srv' = srv))
   \<and> (put_status srv now caller busId sbody = (r2, srv2, ems2) \<longrightarrow>
       (committed r2 \<longrightarrow>
          (\<exists>e. ems2 = [e] \<and> room e = room_of busId \<and> event e = ''bus-status-updated'')
          \<and> (\<exists>b b'. findById (buses srv) busId = Doc b \<and> r2 = Success b'
                \<and> srv2 = srv\<lparr>buses := store b' (buses srv)\<rparr>))
       \<and> (\<not> committed r2 \<longrightarrow> ems2 = [] \<and> srv2 = srv))
   \<and> snd (snd (delete_bus srv caller busId)) = []
   \<and> (\<exists>e. update_bus_location srv socket busId rest = (srv, [e]) \<and> room e = room_of busId)
   \<and> (\<exists>e. update_bus_status srv socket busId rest = (srv, [e]) \<and> room e = room_of busId)"
proof -
  have l: "(committed r \<longrightarrow>
          (\<exists>e. ems = [e] \<and> room e = room_of busId \<and> event e = ''bus-location-updated'')
          \<and> (\<exists>b b'. findById (buses srv) busId = Doc b \<and> r = Success b'
                \<and> srv' = srv\<lparr>buses := store b' (buses srv)\<rparr>))
       \<and> (\<not> committed r \<longrightarrow> ems = [] \<and> srv' = srv)"
    if h: "put_location srv now caller busId lbody = (r, srv', ems)" for r srv' ems
  proof -
    from put_location_cases [of srv busId now caller lbody]
    consider (ok) b b' e where "findById (buses srv) busId = Doc b"
        and "room e = room_of busId" and "event e = ''bus-location-updated''"
        and "put_location srv now caller busId lbody =
               (Success b', srv\<lparr>buses := store b' (buses srv)\<rparr>, [e])"
      | (rej) r0 where "\<not> committed r0"
        and "put_location srv now caller busId lbody = (r0, srv, [])"
      by fastforce
    then show ?thesis
    proof cases
      case ok
      from ok(4) h have "r = Success b'" and "srv' = srv\<lparr>buses := store b' (buses srv)\<rparr>"
        and "ems = [e]" by simp_all
      with ok(1,2,3) show ?thesis by (simp add: committed_def)
    next
      case rej
      from rej(2) h have "r = r0" and "srv' = srv" and "ems = []" by simp_all
      with rej(1) show ?thesis by simp
    qed
  qed
  have s: "(committed r \<longrightarrow>
          (\<exists>e. ems = [e] \<and> room e = room_of busId \<and> event e = ''bus-status-updated'')
          \<and> (\<exists>b b'. findById (buses srv) busId = Doc b \<and> r = Success b'
                \<and> srv' = srv\<lparr>buses := store b' (buses srv)\<rparr>))
       \<and> (\<not> committed r \<longrightarrow> ems = [] \<and> srv' = srv)"
    if h: "put_status srv now caller busId sbody = (r, srv', ems)" for r srv' ems
  proof -
    from put_status_cases [of srv busId now caller sbody]
    consider (ok) b b' e where "findById (buses srv) busId = Doc b"
        and "room e = room_of busId" and "event e = ''bus-status-updated''"
        and "put_status srv now caller busId sbody =
               (Success b', srv\<lparr>buses := store b' (buses srv)\<rparr>, [e])"
      | (rej) r0 where "\<not> committed r0"
        and "put_status srv now caller busId sbody = (r0, srv, [])"
      by fastforce
    then show ?thesis
    proof cases
      case ok
      from ok(4) h have "r = Success b'" and "srv' = srv\<lparr>buses := store b' (buses srv)\<rparr>"
        and "ems = [e]" by simp_all
      with ok(1,2,3) show ?thesis by (simp add: committed_def)
    next
      case rej
      from rej(2) h have "r = r0" and "srv' = srv" and "ems = []" by simp_all
      with rej(1) show ?thesis by simp
    qed
  qed
  have d: "snd (snd (delete_bus srv caller busId)) = []"
    by (cases caller) (auto simp add: delete_bus_def auth_def split: option.splits lookup.splits)
  have u1: "\<exists>e. update_bus_location srv socket busId rest = (srv, [e]) \<and> room e = room_of busId"
    by (simp add: update_bus_location_def)
  have u2: "\<exists>e. update_bus_status srv socket busId rest = (srv, [e]) \<and> room e = room_of busId"
    by (simp add: update_bus_status_def)
  from l [of r srv' ems] s [of r2 srv2 ems2] d u1 u2 show ?thesis by blast
qed

theorem rest_mutation_emits_once_witness:
  "put_location fleet 2000 (Some driver1) ''0000000000000000000000b1'' move_body =
       (Success (moved bus1), fleet\<lparr>buses := [moved bus1, bus2, bus3]\<rparr>,
        [\<lparr>room = ''bus-0000000000000000000000b1'', event = ''bus-location-updated'',
          payload = location_data ''0000000000000000000000b1'' (20355 / 1000) (85819 / 1000) 0 0 2000\<rparr>])
   \<and> committed (Success (moved bus1))
   \<and> (\<exists>b. findById (buses fleet) ''0000000000000000000000b1'' = Doc b)
   \<and> put_status fleet 2000 (Some driver1) ''0000000000000000000000b2'' full_body = (PermissionDenied, fleet, [])
   \<and> \<not> committed PermissionDenied"
proof -
  have e: "put_location fleet 2000 (Some driver1) ''0000000000000000000000b1'' move_body =
       (Success (moved bus1), fleet\<lparr>buses := [moved bus1, bus2, bus3]\<rparr>,
        [\<lparr>room = ''bus-0000000000000000000000b1'', event = ''bus-location-updated'',
          payload = location_data ''0000000000000000000000b1'' (20355 / 1000) (85819 / 1000) 0 0 2000\<rparr>])"
    by (simp add: put_location_def schema_defs route_defs fleet_defs)
  have c: "committed (Success (moved bus1))" by (simp add: committed_def)
  have p: "put_status fleet 2000 (Some driver1) ''0000000000000000000000b2'' full_body = (PermissionDenied, fleet, [])"
    by (simp add: put_status_def schema_defs route_defs fleet_defs)
  have n: "\<not> committed PermissionDenied" by (simp add: committed_def)
  note t = rest_mutation_emits_once [where srv = fleet and now = 2000
      and caller = "Some driver1" and busId = "''0000000000000000000000b1''" and lbody = move_body
      and r = "Success (moved bus1)" and srv' = "fleet\<lparr>buses := [moved bus1, bus2, bus3]\<rparr>"
      and ems = "[\<lparr>room = ''bus-0000000000000000000000b1'', event = ''bus-location-updated'',
          payload = location_data ''0000000000000000000000b1'' (20355 / 1000) (85819 / 1000) 0 0 2000\<rparr>]"]
  note t1 = t [THEN conjunct1, THEN mp, OF e, THEN conjunct1, THEN mp, OF c, THEN conjunct2]
  from t1 have x: "\<exists>b. findById (buses fleet) ''0000000000000000000000b1'' = Doc b" by blast
  from e c x p n show ?thesis by (intro conjI)
qed

text \<open>
  The claim fails on a socket event: after socket k2 has joined the room of \<open>bus1\<close>,
  socket k1 sends \<open>update-bus-location\<close> with data of its own; the event reaches k2, and
  the server, its collection included, is what it was.
\<close>

theorem relay_without_commit_counterexample:
  "fst (update_bus_location (fst (join_bus_tracking fleet ''k2'' ''0000000000000000000000b1'')) ''k1'' ''0000000000000000000000b1'' ''forged'')
     = fst (join_bus_tracking fleet ''k2'' ''0000000000000000000000b1'')
   \<and> buses (fst (update_bus_location (fst (join_bus_tracking fleet ''k2'' ''0000000000000000000000b1''))
              ''k1'' ''0000000000000000000000b1'' ''forged'')) = buses fleet
   \<and> snd (update_bus_location (fst (join_bus_tracking fleet ''k2'' ''0000000000000000000000b1'')) ''k1'' ''0000000000000000000000b1'' ''forged'')
     = [\<lparr>room = ''bus-0000000000000000000000b1'', event = ''bus-location-updated'',
          payload = client_data ''0000000000000000000000b1'' ''forged''\<rparr>]
   \<and> ''k2'' \<in> recipients (fst (join_bus_tracking fleet ''k2'' ''0000000000000000000000b1''))
        \<lparr>room = ''bus-0000000000000000000000b1'', event = ''bus-location-updated'',
          payload = client_data ''0000000000000000000000b1'' ''forged''\<rparr>"
  by (simp add: update_bus_location_def join_bus_tracking_def recipients_def room_of_def)

section \<open>Nearby buses\<close>









end
